theory Spec2Isabelle
  imports Main
begin

section \<open>Suntime Inbox Copilot: text-to-query pipeline of \<open>main.py\<close>\<close>

text \<open>
  A Python \<open>str\<close> is a sequence of Unicode code points, and \<open>len\<close> counts code points,
  so a string is modelled as a list of code points (natural numbers). ASCII literals of
  the source are written with \<open>ascii\<close>; other characters are given by their code point.
\<close>

type_synonym cp = nat
type_synonym ustr = "cp list"

definition ascii :: "string \<Rightarrow> ustr" where
  "ascii s = map of_char s"

subsection \<open>Built-in string operations\<close>

text \<open>
  \<open>str.split()\<close> without arguments splits at runs of white space and returns no empty
  string. White space is what \<open>str.isspace\<close> accepts: the code points below.
\<close>

definition py_isspace :: "cp \<Rightarrow> bool" where
  "py_isspace c \<longleftrightarrow>
     (9 \<le> c \<and> c \<le> 13) \<or> (28 \<le> c \<and> c \<le> 32) \<or> c = 133 \<or> c = 160 \<or> c = 5760 \<or>
     (8192 \<le> c \<and> c \<le> 8202) \<or> c = 8232 \<or> c = 8233 \<or> c = 8239 \<or> c = 8287 \<or> c = 12288"

fun split_from :: "ustr \<Rightarrow> ustr \<Rightarrow> ustr list" where
  "split_from cur [] = (if cur = [] then [] else [cur])"
| "split_from cur (c # cs) =
     (if py_isspace c then (if cur = [] then split_from [] cs else cur # split_from [] cs)
      else split_from (cur @ [c]) cs)"

definition py_split :: "ustr \<Rightarrow> ustr list" where
  "py_split s = split_from [] s"

text \<open>\<open>s.replace(old, new)\<close> for a pattern \<open>old\<close> of one character.\<close>

definition py_replace :: "cp \<Rightarrow> ustr \<Rightarrow> ustr \<Rightarrow> ustr" where
  "py_replace old new s = concat (map (\<lambda>c. if c = old then new else [c]) s)"

text \<open>\<open>sep.join(parts)\<close>.\<close>

fun py_join :: "ustr \<Rightarrow> ustr list \<Rightarrow> ustr" where
  "py_join sep [] = []"
| "py_join sep [p] = p"
| "py_join sep (p # q # ps) = p @ sep @ py_join sep (q # ps)"

text \<open>\<open>s.strip()\<close>: white space removed at both ends.\<close>

definition py_strip :: "ustr \<Rightarrow> ustr" where
  "py_strip s = rev (dropWhile py_isspace (rev (dropWhile py_isspace s)))"

subsection \<open>The Unicode tables of the standard library\<close>

text \<open>
  \<open>str.lower\<close>, \<open>unicodedata.normalize("NFD", _)\<close> and \<open>unicodedata.category\<close> belong
  to the Python runtime, not to this repository, and depend on the version of the Unicode
  Character Database it ships. The functions of \<open>main.py\<close> take them as a parameter;
  \<open>category_Mn U c\<close> stands for \<open>unicodedata.category(c) == "Mn"\<close>, the only use the
  source makes of the category.
\<close>

record unicode =
  str_lower :: "ustr \<Rightarrow> ustr"
  normalize_NFD :: "ustr \<Rightarrow> ustr"
  category_Mn :: "cp \<Rightarrow> bool"

subsection \<open>An extract of the Unicode Character Database\<close>

text \<open>
  For concrete inputs the tables are instantiated by an extract of the database that is
  exact on the following repertoire: Basic Latin and Latin-1 Supplement (code points below
  256), the combining marks that occur in their canonical decompositions (U+0300 to
  U+0303, U+0308, U+030A, U+0327), the combining grapheme joiner U+034F (category Mn,
  combining class 0) and the spacing marks U+302E and U+1D16D (category Mc, combining
  classes 224 and 226). Code points outside the repertoire are treated as caseless
  starters without decomposition; statements about \<open>ucd\<close> are made for inputs inside it.
\<close>

definition lower_cp :: "cp \<Rightarrow> cp" where
  "lower_cp c = (if (65 \<le> c \<and> c \<le> 90) \<or> (192 \<le> c \<and> c \<le> 222 \<and> c \<noteq> 215) then c + 32 else c)"

definition decomposition_table :: "(cp \<times> ustr) list" where
  "decomposition_table =
     [(0xC0, [0x41, 0x300]), (0xC1, [0x41, 0x301]), (0xC2, [0x41, 0x302]), (0xC3, [0x41, 0x303]),
      (0xC4, [0x41, 0x308]), (0xC5, [0x41, 0x30A]), (0xC7, [0x43, 0x327]), (0xC8, [0x45, 0x300]),
      (0xC9, [0x45, 0x301]), (0xCA, [0x45, 0x302]), (0xCB, [0x45, 0x308]), (0xCC, [0x49, 0x300]),
      (0xCD, [0x49, 0x301]), (0xCE, [0x49, 0x302]), (0xCF, [0x49, 0x308]), (0xD1, [0x4E, 0x303]),
      (0xD2, [0x4F, 0x300]), (0xD3, [0x4F, 0x301]), (0xD4, [0x4F, 0x302]), (0xD5, [0x4F, 0x303]),
      (0xD6, [0x4F, 0x308]), (0xD9, [0x55, 0x300]), (0xDA, [0x55, 0x301]), (0xDB, [0x55, 0x302]),
      (0xDC, [0x55, 0x308]), (0xDD, [0x59, 0x301]), (0xE0, [0x61, 0x300]), (0xE1, [0x61, 0x301]),
      (0xE2, [0x61, 0x302]), (0xE3, [0x61, 0x303]), (0xE4, [0x61, 0x308]), (0xE5, [0x61, 0x30A]),
      (0xE7, [0x63, 0x327]), (0xE8, [0x65, 0x300]), (0xE9, [0x65, 0x301]), (0xEA, [0x65, 0x302]),
      (0xEB, [0x65, 0x308]), (0xEC, [0x69, 0x300]), (0xED, [0x69, 0x301]), (0xEE, [0x69, 0x302]),
      (0xEF, [0x69, 0x308]), (0xF1, [0x6E, 0x303]), (0xF2, [0x6F, 0x300]), (0xF3, [0x6F, 0x301]),
      (0xF4, [0x6F, 0x302]), (0xF5, [0x6F, 0x303]), (0xF6, [0x6F, 0x308]), (0xF9, [0x75, 0x300]),
      (0xFA, [0x75, 0x301]), (0xFB, [0x75, 0x302]), (0xFC, [0x75, 0x308]), (0xFD, [0x79, 0x301]),
      (0xFF, [0x79, 0x308])]"

definition decompose :: "cp \<Rightarrow> ustr" where
  "decompose c = (case map_of decomposition_table c of Some d \<Rightarrow> d | None \<Rightarrow> [c])"

definition combining_class :: "cp \<Rightarrow> nat" where
  "combining_class c =
     (if c \<in> {0x300, 0x301, 0x302, 0x303, 0x308, 0x30A} then 230
      else if c = 0x327 then 202
      else if c = 0x302E then 224
      else if c = 0x1D16D then 226
      else 0)"

definition is_Mn :: "cp \<Rightarrow> bool" where
  "is_Mn c \<longleftrightarrow> c \<in> {0x300, 0x301, 0x302, 0x303, 0x308, 0x30A, 0x327, 0x34F}"



text \<open>
  Canonical ordering: a character of non-zero combining class moves in front of the
  characters before it whose class is larger. \<open>out\<close> is the output so far, last
  character first.
\<close>

fun insert_mark :: "cp \<Rightarrow> ustr \<Rightarrow> ustr" where
  "insert_mark c [] = [c]"
| "insert_mark c (r # out) =
     (if combining_class c \<noteq> 0 \<and> combining_class c < combining_class r
      then r # insert_mark c out else c # r # out)"

definition canonical_order :: "ustr \<Rightarrow> ustr" where
  "canonical_order s = rev (foldl (\<lambda>out c. insert_mark c out) [] s)"

definition ucd :: unicode where
  "ucd = \<lparr> str_lower = map lower_cp,
           normalize_NFD = (\<lambda>s. canonical_order (concat (map decompose s))),
           category_Mn = is_Mn \<rparr>"






subsection \<open>Text helpers\<close>

definition STOPWORDS_ES :: "ustr set" where
  "STOPWORDS_ES =
     {ascii ''busco'', ascii ''buscar'', ascii ''quisiera'', ascii ''quiero'', ascii ''deseo'',
      ascii ''me'', ascii ''para'', ascii ''de'', ascii ''del'', ascii ''la'', ascii ''el'',
      ascii ''los'', ascii ''las'',
      ascii ''un'', ascii ''una'', ascii ''unos'', ascii ''unas'', ascii ''por'', ascii ''con'',
      ascii ''color'', ascii ''talla'', ascii ''modelo'', ascii ''hombre'', ascii ''mujer'',
      ascii ''ni'' @ [0xF1] @ ascii ''o'', ascii ''ni'' @ [0xF1] @ ascii ''a'',
      ascii ''porfa'', ascii ''porfavor'', ascii ''favor'', ascii ''tipo'', ascii ''marca'',
      ascii ''modelo'', ascii ''reloj'', ascii ''lentes'', ascii ''gafas''}"

definition strip_accents :: "'u unicode_scheme \<Rightarrow> ustr \<Rightarrow> ustr" where
  "strip_accents U s = filter (\<lambda>c. \<not> category_Mn U c) (normalize_NFD U s)"

text \<open>The \<open>for w in tokens\<close> loop of \<open>normalize_terms\<close>, with the list \<open>useful\<close> it appends to.\<close>

fun useful_loop :: "ustr list \<Rightarrow> ustr list \<Rightarrow> ustr list" where
  "useful_loop useful [] = useful"
| "useful_loop useful (w # tokens) =
     (if w \<in> STOPWORDS_ES then useful_loop useful tokens
      else if length w \<le> 2 then useful_loop useful tokens
      else useful_loop (useful @ [w]) tokens)"

definition normalize_terms :: "'u unicode_scheme \<Rightarrow> ustr \<Rightarrow> ustr list" where
  "normalize_terms U text =
     (let t = strip_accents U (str_lower U text);
          tokens = filter (\<lambda>w. w \<noteq> [])
                     (py_split (py_replace 46 [32] (py_replace 44 [32] t)))
      in take 5 (useful_loop [] tokens))"

text \<open>The text that \<open>normalize_terms\<close> splits: accents stripped, commas and periods blanked.\<close>

definition cleaned :: "'u unicode_scheme \<Rightarrow> ustr \<Rightarrow> ustr" where
  "cleaned U text = py_replace 46 [32] (py_replace 44 [32] (strip_accents U (str_lower U text)))"


subsection \<open>Query synthesis\<close>

definition BRAND_HINTS :: "ustr set" where
  "BRAND_HINTS =
     {ascii ''invicta'', ascii ''ray-ban'', ascii ''rayban'', ascii ''oakley'', ascii ''new'',
      ascii ''era'', ascii ''g-shock'', ascii ''gshock'', ascii ''festina'', ascii ''tommy'',
      ascii ''hilfiger'', ascii ''vans'', ascii ''polaroid''}"

text \<open>The set literal of two-word brand names in the loop of \<open>build_shopify_query\<close>.\<close>

definition BRAND_PHRASES :: "ustr set" where
  "BRAND_PHRASES =
     {ascii ''ray ban'', ascii ''new era'', ascii ''g shock'', ascii ''tommy hilfiger''}"

text \<open>
  The body of the loop after the lookahead: quotes (code point 34) are removed, the group
  of field clauses is built and joined.
\<close>

definition group_of :: "ustr \<Rightarrow> ustr" where
  "group_of w0 =
     (let w = py_replace 34 [] w0;
          group = [ascii ''title:'' @ [34] @ w @ ascii ''*'' @ [34],
                   ascii ''tag:'' @ [34] @ w @ [34]];
          group = (if \<exists>tok \<in> set (py_split w). tok \<in> BRAND_HINTS
                   then group @ [ascii ''vendor:'' @ [34] @ w @ [34]] else group)
      in ascii ''('' @ py_join (ascii '' OR '') group @ ascii '')'')"

text \<open>
  The \<open>while i < len(terms)\<close> loop. \<open>pair\<close> is \<open>None\<close> at the last token; a pair is never
  the empty string, so \<open>pair and pair in {...}\<close> is the membership test on \<open>Some\<close>.
\<close>

function query_loop :: "ustr list \<Rightarrow> nat \<Rightarrow> ustr list \<Rightarrow> ustr list" where
  "query_loop terms i parts =
     (if i < length terms then
        (let w = terms ! i;
             pair = (if i + 1 < length terms then Some (w @ ascii '' '' @ terms ! (i + 1))
                     else None)
         in case pair of
              Some p \<Rightarrow>
                if p \<in> BRAND_PHRASES
                then query_loop terms (i + 1 + 1) (parts @ [group_of p])
                else query_loop terms (i + 1) (parts @ [group_of w])
            | None \<Rightarrow> query_loop terms (i + 1) (parts @ [group_of w]))
      else parts)"
  by pat_completeness auto
termination
  by (relation "measure (\<lambda>(terms, i, parts). length terms - i)") auto

declare query_loop.simps [simp del]

definition build_shopify_query :: "ustr list \<Rightarrow> ustr" where
  "build_shopify_query terms =
     (if terms = [] then [] else py_join (ascii '' AND '') (query_loop terms 0 []))"

subsection \<open>The query synthesizer as the specification describes it\<close>

text \<open>
  The specification describes \<open>build_query\<close> as a greedy left-to-right merge of recognised
  two-token brand phrases followed by one group per resulting term. The definitions below
  follow those words; the loop of the source is compared with them further down.
\<close>

datatype qterm = Single ustr | Phrase ustr ustr

fun merge_terms :: "ustr list \<Rightarrow> qterm list" where
  "merge_terms [] = []"
| "merge_terms [a] = [Single a]"
| "merge_terms (a # b # rest) =
     (if a @ ascii '' '' @ b \<in> BRAND_PHRASES then Phrase a b # merge_terms rest
      else Single a # merge_terms (b # rest))"

fun term_text :: "qterm \<Rightarrow> ustr" where
  "term_text (Single a) = a"
| "term_text (Phrase a b) = a @ ascii '' '' @ b"

fun brand_hit :: "qterm \<Rightarrow> bool" where
  "brand_hit (Single a) \<longleftrightarrow> py_replace 34 [] a \<in> BRAND_HINTS"
| "brand_hit (Phrase a b) \<longleftrightarrow>
     py_replace 34 [] (a @ ascii '' '' @ b) \<in> BRAND_HINTS \<or> a \<in> BRAND_HINTS \<or> b \<in> BRAND_HINTS"

definition spec_group :: "qterm \<Rightarrow> ustr" where
  "spec_group t =
     (let w = py_replace 34 [] (term_text t)
      in ascii ''(title:'' @ [34] @ w @ ascii ''*'' @ [34] @ ascii '' OR tag:'' @ [34] @ w @ [34] @
         (if brand_hit t then ascii '' OR vendor:'' @ [34] @ w @ [34] else []) @ ascii '')'')"

section \<open>Values, errors and the runtime library\<close>

text \<open>
  A float is given by its sign, mantissa and binary exponent: \<open>Finite s m e\<close> is
  \<open>(-1)^s * m * 2^e\<close>, so that every double (also \<open>-0.0\<close>) has an exact representation;
  \<open>1234.5\<close> is \<open>Finite False 2469 (-1)\<close>.
\<close>

datatype pyfloat = Finite bool nat int | Inf bool | NaN

text \<open>
  The values that reach the formatter are those of a decoded JSON document. A \<open>dict\<close> is
  an association list read with \<open>map_of\<close>.
\<close>

datatype pyval =
    VNone
  | VBool bool
  | VInt int
  | VFloat pyfloat
  | VStr ustr
  | VList "pyval list"
  | VDict "(ustr \<times> pyval) list"

text \<open>
  An exception (a subclass of \<open>Exception\<close>, which is what \<open>except Exception\<close> catches) is
  its class name and the text \<open>str(e)\<close>.
\<close>

datatype exn = Exn string ustr

fun exn_str :: "exn \<Rightarrow> ustr" where
  "exn_str (Exn cls txt) = txt"

text \<open>
  What the Python runtime contributes besides the Unicode tables: \<open>repr\<close> of a string (the
  \<open>!r\<close> conversion), \<open>str\<close> of a value that is not a string, the conversion of an \<open>int\<close> or a
  \<open>str\<close> to \<open>float\<close> (\<open>None\<close> where Python raises \<open>OverflowError\<close> or \<open>ValueError\<close>) and the
  message of the errors the interpreter raises itself (by operation and operand).
\<close>

record pylib = unicode +
  py_repr :: "ustr \<Rightarrow> ustr"
  py_str :: "pyval \<Rightarrow> ustr"
  float_of_int :: "int \<Rightarrow> pyfloat option"
  float_of_str :: "ustr \<Rightarrow> pyfloat option"
  error_text :: "string \<Rightarrow> pyval \<Rightarrow> ustr"

text \<open>\<open>bool(v)\<close>, as \<open>not v\<close> and \<open>v or w\<close> use it.\<close>

fun truthy :: "pyval \<Rightarrow> bool" where
  "truthy VNone = False"
| "truthy (VBool b) = b"
| "truthy (VInt n) = (n \<noteq> 0)"
| "truthy (VFloat (Finite s m e)) = (m \<noteq> 0)"
| "truthy (VFloat (Inf s)) = True"
| "truthy (VFloat NaN) = True"
| "truthy (VStr s) = (s \<noteq> [])"
| "truthy (VList l) = (l \<noteq> [])"
| "truthy (VDict d) = (d \<noteq> [])"

definition py_or :: "pyval \<Rightarrow> pyval \<Rightarrow> pyval" where
  "py_or a b = (if truthy a then a else b)"

text \<open>\<open>f"{v}"\<close>: a string is inserted as it is, any other value through \<open>str\<close>.\<close>

definition fmt :: "'l pylib_scheme \<Rightarrow> pyval \<Rightarrow> ustr" where
  "fmt L v = (case v of VStr s \<Rightarrow> s | _ \<Rightarrow> py_str L v)"

text \<open>\<open>v.get(key, default)\<close>: only a \<open>dict\<close> has the method.\<close>

definition py_get :: "'l pylib_scheme \<Rightarrow> pyval \<Rightarrow> ustr \<Rightarrow> pyval \<Rightarrow> exn + pyval" where
  "py_get L v key dflt =
     (case v of
        VDict d \<Rightarrow> Inr (case map_of d key of Some x \<Rightarrow> x | None \<Rightarrow> dflt)
      | _ \<Rightarrow> Inl (Exn ''AttributeError'' (error_text L ''get'' v)))"

text \<open>\<open>v[key]\<close> for a string key, and \<open>v[0]\<close>.\<close>

definition py_item :: "'l pylib_scheme \<Rightarrow> pyval \<Rightarrow> ustr \<Rightarrow> exn + pyval" where
  "py_item L v key =
     (case v of
        VDict d \<Rightarrow> (case map_of d key of Some x \<Rightarrow> Inr x
                    | None \<Rightarrow> Inl (Exn ''KeyError'' (py_repr L key)))
      | _ \<Rightarrow> Inl (Exn ''TypeError'' (error_text L ''subscript'' v)))"

definition py_item0 :: "'l pylib_scheme \<Rightarrow> pyval \<Rightarrow> exn + pyval" where
  "py_item0 L v =
     (case v of
        VList l \<Rightarrow> (case l of x # _ \<Rightarrow> Inr x
                    | [] \<Rightarrow> Inl (Exn ''IndexError'' (error_text L ''index'' v)))
      | VStr s \<Rightarrow> (case s of c # _ \<Rightarrow> Inr (VStr [c])
                   | [] \<Rightarrow> Inl (Exn ''IndexError'' (error_text L ''index'' v)))
      | VDict d \<Rightarrow> Inl (Exn ''KeyError'' (ascii ''0''))
      | _ \<Rightarrow> Inl (Exn ''TypeError'' (error_text L ''subscript'' v)))"

text \<open>
  The elements of \<open>v[:3]\<close>, as the \<open>for\<close> loop visits them. A string is sliced and iterated
  by characters; a \<open>dict\<close> and the scalars cannot be sliced (for a \<open>dict\<close> the class of the
  error is \<open>KeyError\<close> from Python 3.12 on).
\<close>

definition py_first3 :: "'l pylib_scheme \<Rightarrow> pyval \<Rightarrow> exn + pyval list" where
  "py_first3 L v =
     (case v of
        VList l \<Rightarrow> Inr (take 3 l)
      | VStr s \<Rightarrow> Inr (map (\<lambda>c. VStr [c]) (take 3 s))
      | _ \<Rightarrow> Inl (Exn ''TypeError'' (error_text L ''slice'' v)))"

text \<open>\<open>key in v\<close> for a string \<open>key\<close>: key of a \<open>dict\<close>, element of a list, substring of a string.\<close>

fun py_in_str :: "ustr \<Rightarrow> ustr \<Rightarrow> bool" where
  "py_in_str pat [] = (pat = [])"
| "py_in_str pat (c # cs) = (take (length pat) (c # cs) = pat \<or> py_in_str pat cs)"

definition py_in :: "'l pylib_scheme \<Rightarrow> ustr \<Rightarrow> pyval \<Rightarrow> exn + bool" where
  "py_in L key v =
     (case v of
        VDict d \<Rightarrow> Inr (map_of d key \<noteq> None)
      | VList l \<Rightarrow> Inr (VStr key \<in> set l)
      | VStr s \<Rightarrow> Inr (py_in_str key s)
      | _ \<Rightarrow> Inl (Exn ''TypeError'' (error_text L ''in'' v)))"

subsection \<open>Price formatting\<close>

text \<open>\<open>float(v)\<close>.\<close>

definition py_float :: "'l pylib_scheme \<Rightarrow> pyval \<Rightarrow> exn + pyfloat" where
  "py_float L v =
     (case v of
        VFloat x \<Rightarrow> Inr x
      | VBool b \<Rightarrow> Inr (Finite False (if b then 1 else 0) 0)
      | VInt n \<Rightarrow> (case float_of_int L n of Some x \<Rightarrow> Inr x
                  | None \<Rightarrow> Inl (Exn ''OverflowError'' (error_text L ''float'' v)))
      | VStr s \<Rightarrow> (case float_of_str L s of Some x \<Rightarrow> Inr x
                  | None \<Rightarrow> Inl (Exn ''ValueError'' (error_text L ''float'' v)))
      | _ \<Rightarrow> Inl (Exn ''TypeError'' (error_text L ''float'' v)))"

text \<open>
  The format specification \<open>,.2f\<close>: the value is rounded to hundredths, ties to even (the
  conversion is correctly rounded and works on the exact binary value), the integer part is
  grouped in threes with commas, and two decimals follow the period.
\<close>

definition round_half_even :: "nat \<Rightarrow> nat \<Rightarrow> nat" where
  "round_half_even a b =
     (let q = a div b; r = a mod b
      in if 2 * r < b then q else if b < 2 * r then q + 1 else if even q then q else q + 1)"

definition hundredths :: "nat \<Rightarrow> int \<Rightarrow> nat" where
  "hundredths m e =
     (if 0 \<le> e then m * 2 ^ nat e * 100 else round_half_even (m * 100) (2 ^ nat (- e)))"

function decimal :: "nat \<Rightarrow> ustr" where
  "decimal n = (if n < 10 then [48 + n] else decimal (n div 10) @ [48 + n mod 10])"
  by pat_completeness auto
termination
  by (relation "measure (\<lambda>n. n)") auto

declare decimal.simps [simp del]

function group3 :: "ustr \<Rightarrow> ustr" where
  "group3 ds =
     (if length ds \<le> 3 then ds
      else group3 (take (length ds - 3) ds) @ ascii '','' @ drop (length ds - 3) ds)"
  by pat_completeness auto
termination
  by (relation "measure length") auto

declare group3.simps [simp del]

definition format_2f :: "pyfloat \<Rightarrow> ustr" where
  "format_2f x =
     (case x of
        Finite s m e \<Rightarrow>
          (let n = hundredths m e
           in (if s then ascii ''-'' else []) @ group3 (decimal (n div 100)) @ ascii ''.'' @
              [48 + n mod 100 div 10, 48 + n mod 10])
      | Inf s \<Rightarrow> (if s then ascii ''-inf'' else ascii ''inf'')
      | NaN \<Rightarrow> ascii ''nan'')"

text \<open>
  \<open>format_price\<close>: the body of the \<open>try\<close>, and the function with its handler
  \<open>except Exception: return "S/ \<emdash>"\<close> (the dash is U+2014).
\<close>

definition format_price_try :: "'l pylib_scheme \<Rightarrow> pyval \<Rightarrow> exn + ustr" where
  "format_price_try L v =
     (case py_float L v of
        Inl e \<Rightarrow> Inl e
      | Inr x \<Rightarrow>
          Inr (py_replace 88 (ascii ''.'')
                (py_replace 46 (ascii '','')
                  (py_replace 44 (ascii ''X'') (ascii ''S/ '' @ format_2f x)))))"

definition format_price :: "'l pylib_scheme \<Rightarrow> pyval \<Rightarrow> exn + ustr" where
  "format_price L v =
     (case format_price_try L v of
        Inl e \<Rightarrow> Inr (ascii ''S/ '' @ [8212])
      | Inr s \<Rightarrow> Inr s)"

subsection \<open>Result formatting\<close>

definition STOREFRONT_BASE :: ustr where
  "STOREFRONT_BASE = ascii ''https://suntimestore.com''"

text \<open>
  \<open>price = "\<emdash>"\<close> followed by the \<open>try\<close> that replaces it by
  \<open>n["variants"]["edges"][0]["node"]["price"]\<close>; any exception leaves the dash.
\<close>

definition first_variant_price :: "'l pylib_scheme \<Rightarrow> pyval \<Rightarrow> pyval" where
  "first_variant_price L n =
     (case py_item L n (ascii ''variants'') of Inl x \<Rightarrow> VStr [8212] | Inr variants \<Rightarrow>
      case py_item L variants (ascii ''edges'') of Inl x \<Rightarrow> VStr [8212] | Inr edges \<Rightarrow>
      case py_item0 L edges of Inl x \<Rightarrow> VStr [8212] | Inr first \<Rightarrow>
      case py_item L first (ascii ''node'') of Inl x \<Rightarrow> VStr [8212] | Inr node \<Rightarrow>
      case py_item L node (ascii ''price'') of Inl x \<Rightarrow> VStr [8212] | Inr price \<Rightarrow> price)"

text \<open>The body of the \<open>for e in edges[:3]\<close> loop: the line appended for one item.\<close>

definition product_line :: "'l pylib_scheme \<Rightarrow> pyval \<Rightarrow> exn + ustr" where
  "product_line L e =
     (case py_item L e (ascii ''node'') of Inl x \<Rightarrow> Inl x | Inr n \<Rightarrow>
      case py_get L n (ascii ''title'') (VStr (ascii ''Producto'')) of Inl x \<Rightarrow> Inl x | Inr title \<Rightarrow>
      case py_get L n (ascii ''handle'') (VStr []) of Inl x \<Rightarrow> Inl x | Inr handle \<Rightarrow>
      case py_get L n (ascii ''onlineStoreUrl'') VNone of Inl x \<Rightarrow> Inl x | Inr own_url \<Rightarrow>
      (let url = py_or own_url
                   (if truthy handle
                    then VStr (STOREFRONT_BASE @ ascii ''/products/'' @ fmt L handle)
                    else VStr STOREFRONT_BASE);
           price = first_variant_price L n
       in case format_price L price of Inl x \<Rightarrow> Inl x | Inr shown \<Rightarrow>
            Inr ([8226] @ ascii '' '' @ fmt L title @ ascii '' '' @ [8212] @ ascii '' '' @ shown @
                 [10] @ ascii ''  '' @ fmt L url)))"

fun lines_loop :: "'l pylib_scheme \<Rightarrow> ustr list \<Rightarrow> pyval list \<Rightarrow> exn + ustr list" where
  "lines_loop L lines [] = Inr lines"
| "lines_loop L lines (e # es) =
     (case product_line L e of Inl x \<Rightarrow> Inl x | Inr l \<Rightarrow> lines_loop L (lines @ [l]) es)"

definition format_products :: "'l pylib_scheme \<Rightarrow> pyval \<Rightarrow> exn + ustr" where
  "format_products L edges =
     (case py_first3 L edges of Inl x \<Rightarrow> Inl x | Inr es \<Rightarrow>
      case lines_loop L [] es of Inl x \<Rightarrow> Inl x | Inr lines \<Rightarrow> Inr (py_join [10, 10] lines))"

section \<open>External collaborators\<close>

text \<open>
  The language model and the catalog are outside the program. Each is an oracle that
  answers a call in view of the calls made before it; every call is appended to a log, so
  that the number and the arguments of the calls can be stated. A catalog request is the
  \<open>requests.post\<close> call: its URL, the access token of its header and the variable \<open>q\<close> of its
  GraphQL document (the document, the content type and the timeout are constants).
\<close>

record request =
  req_url :: ustr
  req_token :: ustr
  req_q :: ustr

datatype event = LlmCall ustr | CatalogCall request

text \<open>
  \<open>oai.responses.create\<close> raises, or returns a response whose \<open>output_text\<close> is a string or
  \<open>None\<close>. \<open>requests.post\<close> raises, or returns a response; \<open>raise_for_status\<close> raises for an
  error status, and \<open>json()\<close> raises or returns the decoded document.
\<close>

datatype llm_result = LlmRaises exn | LlmResponse "ustr option"

record http_response =
  resp_status_error :: "exn option"
  resp_json :: "exn + pyval"

datatype http_result = PostRaises exn | Responded http_response

record world =
  SHOPIFY_DOMAIN :: "ustr option"
  SHOPIFY_TOKEN :: "ustr option"
  oai :: "(event list \<Rightarrow> ustr \<Rightarrow> llm_result) option"
  requests_post :: "event list \<Rightarrow> request \<Rightarrow> http_result"

definition API_VERSION :: ustr where
  "API_VERSION = ascii ''2024-10''"

definition SHOPIFY_GQL :: "'w world_scheme \<Rightarrow> ustr option" where
  "SHOPIFY_GQL W =
     (case SHOPIFY_DOMAIN W of
        Some d \<Rightarrow> if d \<noteq> [] then Some (ascii ''https://'' @ d @ ascii ''/admin/api/'' @
                                        API_VERSION @ ascii ''/graphql.json'')
                  else None
      | None \<Rightarrow> None)"

section \<open>Catalog lookup\<close>

text \<open>The statements of \<open>shopify_query\<close> after \<open>data = resp.json()\<close>.\<close>

definition products_of :: "'l pylib_scheme \<Rightarrow> pyval \<Rightarrow> exn + pyval" where
  "products_of L data =
     (case py_in L (ascii ''errors'') data of Inl x \<Rightarrow> Inl x | Inr has_errors \<Rightarrow>
      if has_errors then
        (case py_item L data (ascii ''errors'') of Inl x \<Rightarrow> Inl x | Inr errors \<Rightarrow>
           Inl (Exn ''RuntimeError'' (ascii ''GraphQL errors: '' @ fmt L errors)))
      else
        (case py_get L data (ascii ''data'') (VDict []) of Inl x \<Rightarrow> Inl x | Inr d \<Rightarrow>
         case py_get L d (ascii ''products'') (VDict []) of Inl x \<Rightarrow> Inl x | Inr p \<Rightarrow>
         case py_get L p (ascii ''edges'') (VList []) of Inl x \<Rightarrow> Inl x | Inr edges \<Rightarrow>
           Inr (py_or edges (VList []))))"

text \<open>The terms of the query: the second normalization is tried when the first is empty.\<close>

definition query_terms :: "'u unicode_scheme \<Rightarrow> ustr \<Rightarrow> ustr list" where
  "query_terms U text =
     (let terms = normalize_terms U text
      in if terms = [] then normalize_terms U (strip_accents U text) else terms)"

definition shopify_query ::
    "'l pylib_scheme \<Rightarrow> 'w world_scheme \<Rightarrow> event list \<Rightarrow> ustr \<Rightarrow> (exn + pyval) \<times> event list" where
  "shopify_query L W log text =
     (case (SHOPIFY_GQL W, SHOPIFY_TOKEN W) of
        (Some gql, Some token) \<Rightarrow>
          if token = [] then
            (Inl (Exn ''RuntimeError'' (ascii ''Shopify no configurado (dominio o token faltante).'')), log)
          else
            (let gql_query = build_shopify_query (query_terms L text);
                 req = \<lparr> req_url = gql, req_token = token, req_q = gql_query \<rparr>
             in (case requests_post W log req of
                   PostRaises x \<Rightarrow> Inl x
                 | Responded resp \<Rightarrow>
                     (case resp_status_error resp of
                        Some x \<Rightarrow> Inl x
                      | None \<Rightarrow>
                          (case resp_json resp of Inl x \<Rightarrow> Inl x | Inr data \<Rightarrow> products_of L data)),
                 log @ [CatalogCall req]))
      | _ \<Rightarrow>
          (Inl (Exn ''RuntimeError'' (ascii ''Shopify no configurado (dominio o token faltante).'')), log))"

section \<open>Intent resolution\<close>

definition intent_prompt :: "'l pylib_scheme \<Rightarrow> ustr \<Rightarrow> ustr" where
  "intent_prompt L user_text =
     ascii ''Convierte este mensaje del cliente en una consulta breve para buscar en Shopify '' @
     ascii ''(3-6 palabras, marca+tipo+atributo/color si aplica). '' @
     ascii ''Texto: '' @ py_repr L user_text @ ascii ''. '' @
     ascii ''Ejemplos: '' @ [39] @ ascii ''invicta reloj dorado'' @ [39] @ ascii '', '' @ [39] @
     ascii ''ray-ban mujer polarizado'' @ [39] @ ascii '', '' @ [39] @ ascii ''new era gorra negra'' @
     [39] @ ascii ''.''"

text \<open>The body of the \<open>try\<close> of \<open>intent_from_openai\<close>, and the function with its two handlers.\<close>

definition intent_try ::
    "'l pylib_scheme \<Rightarrow> (event list \<Rightarrow> ustr \<Rightarrow> llm_result) \<Rightarrow> event list \<Rightarrow> ustr \<Rightarrow>
     (exn + ustr) \<times> event list" where
  "intent_try L client log user_text =
     (let prompt = intent_prompt L user_text
      in (case client log prompt of
            LlmRaises x \<Rightarrow> Inl x
          | LlmResponse output_text \<Rightarrow>
              (let intent = str_lower L (py_strip (case output_text of Some s \<Rightarrow> s | None \<Rightarrow> []))
               in Inr (if intent \<noteq> [] then intent else user_text)),
          log @ [LlmCall prompt]))"

definition intent_from_openai ::
    "'l pylib_scheme \<Rightarrow> 'w world_scheme \<Rightarrow> event list \<Rightarrow> ustr \<Rightarrow> (exn + ustr) \<times> event list" where
  "intent_from_openai L W log user_text =
     (case oai W of
        None \<Rightarrow> (Inr user_text, log)
      | Some client \<Rightarrow>
          (case intent_try L client log user_text of
             (Inl x, log') \<Rightarrow> (Inr user_text, log')
           | (Inr intent, log') \<Rightarrow> (Inr intent, log')))"

section \<open>The endpoint \<open>chat_intent\<close>\<close>

definition ask_message :: ustr where
  "ask_message =
     [191] @ ascii ''Qu'' @ [233] @ ascii '' est'' @ [225] @ ascii ''s buscando? Ejemplo: '' @ [39] @
     ascii ''reloj Invicta dorado'' @ [39] @ ascii '' o '' @ [39] @
     ascii ''lentes Ray-Ban mujer polarizado'' @ [39] @ ascii ''.''"

definition apology_message :: "ustr \<Rightarrow> ustr" where
  "apology_message detail =
     [9888, 65039] @ ascii '' No pude consultar Shopify ('' @ detail @
     ascii ''). Verifica dominio/token y vuelve a intentar.''"

definition no_results_message :: "ustr \<Rightarrow> ustr" where
  "no_results_message intent =
     ascii ''No encontr'' @ [233] @ ascii '' resultados para '' @ [8220] @ intent @ [8221] @
     ascii ''. '' @ [191] @ ascii ''Buscamos otra marca o estilo parecido?''"

definition listing_message :: "ustr \<Rightarrow> ustr \<Rightarrow> ustr" where
  "listing_message intent listado =
     [10024] @ ascii '' Esto es lo m'' @ [225] @ ascii ''s cercano a lo que buscas ('' @ intent @
     ascii ''):'' @ [10, 10] @ listado @ [10, 10] @
     [191] @ ascii ''Quieres que te recomiende seg'' @ [250] @ ascii ''n precio o color? '' @
     [127873] @ ascii '' *Tip:* si es tu primera compra, usa **SUNTIME10%** para 10% de descuento.''"

text \<open>
  The result is the \<open>response\<close> text of the returned dictionary, or the exception that
  leaves the function, together with the log of the calls made.
\<close>

definition chat_intent ::
    "'l pylib_scheme \<Rightarrow> 'w world_scheme \<Rightarrow> ustr \<Rightarrow> (exn + ustr) \<times> event list" where
  "chat_intent L W message =
     (let user_text = py_strip message
      in if user_text = [] then (Inr ask_message, [])
         else
           (case intent_from_openai L W [] user_text of
              (Inl x, log1) \<Rightarrow> (Inl x, log1)
            | (Inr intent, log1) \<Rightarrow>
                (case shopify_query L W log1 intent of
                   (Inl x, log2) \<Rightarrow> (Inr (apology_message (exn_str x)), log2)
                 | (Inr first, log2) \<Rightarrow>
                     (let (products, log3) =
                            (if \<not> truthy first then
                               (case shopify_query L W log2 user_text of
                                  (Inl x, log3) \<Rightarrow> (first, log3)
                                | (Inr second, log3) \<Rightarrow> (second, log3))
                             else (first, log2))
                      in if \<not> truthy products then (Inr (no_results_message intent), log3)
                         else
                           (case format_products L products of
                              Inl x \<Rightarrow> (Inl x, log3)
                            | Inr listado \<Rightarrow> (Inr (listing_message intent listado), log3))))))"

section \<open>A runtime and collaborators for concrete runs\<close>

text \<open>
  For the concrete runs below the Unicode tables of the runtime are those of \<open>ucd\<close>; the
  other functions of the runtime are left open, and the runs hold for each choice of them.
\<close>

definition ucd_runtime ::
    "(ustr \<Rightarrow> ustr) \<Rightarrow> (pyval \<Rightarrow> ustr) \<Rightarrow> (int \<Rightarrow> pyfloat option) \<Rightarrow> (ustr \<Rightarrow> pyfloat option) \<Rightarrow>
     (string \<Rightarrow> pyval \<Rightarrow> ustr) \<Rightarrow> pylib" where
  "ucd_runtime r s fi fs et =
     \<lparr> str_lower = str_lower ucd, normalize_NFD = normalize_NFD ucd, category_Mn = category_Mn ucd,
       py_repr = r, py_str = s, float_of_int = fi, float_of_str = fs, error_text = et \<rparr>"

text \<open>
  Four worlds. In all of them the shop is configured. In the first three the language
  model is not configured and the catalog answers every request in the same way: with no
  hit, with a connection error, and with one item that has no \<open>node\<close>. In the fourth the
  language model answers \<open>" Invicta Dorado "\<close> and the catalog has no hit.
\<close>

definition catalog_answer :: "pyval \<Rightarrow> http_result" where
  "catalog_answer edges =
     Responded \<lparr> resp_status_error = None,
                 resp_json = Inr (VDict [(ascii ''data'',
                   VDict [(ascii ''products'', VDict [(ascii ''edges'', edges)])])]) \<rparr>"

definition world_no_hits :: world where
  "world_no_hits =
     \<lparr> SHOPIFY_DOMAIN = Some (ascii ''suntimestores.myshopify.com''),
       SHOPIFY_TOKEN = Some (ascii ''shpat_token''),
       oai = None,
       requests_post = (\<lambda>log req. catalog_answer (VList [])) \<rparr>"

definition world_down :: world where
  "world_down =
     \<lparr> SHOPIFY_DOMAIN = Some (ascii ''suntimestores.myshopify.com''),
       SHOPIFY_TOKEN = Some (ascii ''shpat_token''),
       oai = None,
       requests_post = (\<lambda>log req. PostRaises (Exn ''ConnectionError'' (ascii ''connection refused''))) \<rparr>"

definition world_malformed :: world where
  "world_malformed =
     \<lparr> SHOPIFY_DOMAIN = Some (ascii ''suntimestores.myshopify.com''),
       SHOPIFY_TOKEN = Some (ascii ''shpat_token''),
       oai = None,
       requests_post = (\<lambda>log req. catalog_answer (VList [VDict []])) \<rparr>"

definition world_llm :: world where
  "world_llm =
     \<lparr> SHOPIFY_DOMAIN = Some (ascii ''suntimestores.myshopify.com''),
       SHOPIFY_TOKEN = Some (ascii ''shpat_token''),
       oai = Some (\<lambda>log prompt. LlmResponse (Some (ascii '' Invicta Dorado ''))),
       requests_post = (\<lambda>log req. catalog_answer (VList [])) \<rparr>"


section \<open>Supporting lemmas\<close>

subsection \<open>Splitting and the tokenizer\<close>

lemma split_from_props:
  "\<forall>c\<in>set cur. \<not> py_isspace c \<Longrightarrow> w \<in> set (split_from cur s) \<Longrightarrow>
     w \<noteq> [] \<and> (\<forall>c\<in>set w. \<not> py_isspace c \<and> c \<in> set cur \<union> set s)"
proof (induction s arbitrary: cur)
  case Nil
  then show ?case by (simp split: if_splits)
next
  case (Cons c cs)
  show ?case
  proof (cases "py_isspace c")
    case True
    from Cons.prems(2) True have "w = cur \<and> cur \<noteq> [] \<or> w \<in> set (split_from [] cs)"
      by (simp split: if_splits)
    then show ?thesis
    proof
      assume "w = cur \<and> cur \<noteq> []"
      with Cons.prems(1) show ?thesis by simp
    next
      assume "w \<in> set (split_from [] cs)"
      with Cons.IH [of "[]"] show ?thesis by simp
    qed
  next
    case False
    with Cons.prems(2) have "w \<in> set (split_from (cur @ [c]) cs)" by simp
    moreover from False Cons.prems(1) have "\<forall>x\<in>set (cur @ [c]). \<not> py_isspace x" by simp
    ultimately have "w \<noteq> [] \<and> (\<forall>x\<in>set w. \<not> py_isspace x \<and> x \<in> set (cur @ [c]) \<union> set cs)"
      by (rule Cons.IH [rotated])
    then show ?thesis by simp
  qed
qed

lemma py_split_props:
  "w \<in> set (py_split s) \<Longrightarrow> w \<noteq> [] \<and> (\<forall>c\<in>set w. \<not> py_isspace c \<and> c \<in> set s)"
  using split_from_props [of "[]" w s] by (simp add: py_split_def)

lemma split_from_no_space:
  "\<forall>c\<in>set s. \<not> py_isspace c \<Longrightarrow> split_from cur s = (if cur @ s = [] then [] else [cur @ s])"
  by (induction s arbitrary: cur) simp_all

lemma py_split_no_space:
  "\<forall>c\<in>set s. \<not> py_isspace c \<Longrightarrow> py_split s = (if s = [] then [] else [s])"
  using split_from_no_space [of s "[]"] by (simp add: py_split_def)

lemma useful_loop_filter:
  "useful_loop useful tokens = useful @ filter (\<lambda>w. w \<notin> STOPWORDS_ES \<and> 2 < length w) tokens"
  by (induction tokens arbitrary: useful) auto

lemma py_replace_set:
  "c \<in> set (py_replace old new s) \<Longrightarrow> c \<in> set new \<or> (c \<in> set s \<and> c \<noteq> old)"
  by (auto simp: py_replace_def split: if_splits)

lemma normalize_terms_filter:
  "normalize_terms U text =
     take 5 (filter (\<lambda>w. w \<notin> STOPWORDS_ES \<and> 2 < length w) (py_split (cleaned U text)))"
proof -
  have "filter (\<lambda>w. w \<noteq> []) (py_split s) = py_split s" for s
    using py_split_props [of _ s] by (simp add: filter_id_conv)
  then show ?thesis
    by (simp add: normalize_terms_def cleaned_def Let_def useful_loop_filter)
qed

lemma space_is_space: "py_isspace 32" by (simp add: py_isspace_def)

lemma cleaned_chars:
  assumes "c \<in> set (cleaned U text)" "\<not> py_isspace c"
  shows "\<not> category_Mn U c \<and> c \<in> set (normalize_NFD U (str_lower U text))"
proof -
  from assms(1) have "c \<in> set [32] \<or> c \<in> set (py_replace 44 [32] (strip_accents U (str_lower U text)))"
    unfolding cleaned_def using py_replace_set by blast
  with assms(2) space_is_space have "c \<in> set (py_replace 44 [32] (strip_accents U (str_lower U text)))"
    by auto
  then have "c \<in> set [32] \<or> c \<in> set (strip_accents U (str_lower U text))"
    using py_replace_set by blast
  with assms(2) space_is_space have "c \<in> set (strip_accents U (str_lower U text))" by auto
  then show ?thesis by (simp add: strip_accents_def)
qed

subsection \<open>The loop of the query synthesizer\<close>

text \<open>
  The loop started at index \<open>i\<close> appends the groups of the greedy merge of the remaining
  tokens.
\<close>

lemma query_loop_merge:
  "i \<le> length terms \<Longrightarrow>
   query_loop terms i parts = parts @ map (\<lambda>t. group_of (term_text t)) (merge_terms (drop i terms))"
proof (induction terms i parts rule: query_loop.induct)
  case (1 terms i parts)
  show ?case
  proof (cases "i < length terms")
    case False
    with "1.prems" show ?thesis by (subst query_loop.simps) simp
  next
    case lt: True
    show ?thesis
    proof (cases "i + 1 < length terms")
      case False
      with lt have d: "drop i terms = [terms ! i]"
        by (metis Cons_nth_drop_Suc Suc_eq_plus1 drop_all not_less)
      have "query_loop terms i parts = query_loop terms (i + 1) (parts @ [group_of (terms ! i)])"
        using lt False by (subst query_loop.simps) simp
      also have "\<dots> = parts @ [group_of (terms ! i)]"
        using lt False by (subst query_loop.simps) simp
      finally show ?thesis by (simp add: d)
    next
      case True
      let ?p = "terms ! i @ ascii '' '' @ terms ! (i + 1)"
      have d: "drop i terms = terms ! i # terms ! (i + 1) # drop (i + 1 + 1) terms"
        using lt True by (metis Cons_nth_drop_Suc Suc_eq_plus1)
      show ?thesis
      proof (cases "?p \<in> BRAND_PHRASES")
        case p: True
        have "query_loop terms i parts = query_loop terms (i + 1 + 1) (parts @ [group_of ?p])"
          using lt True p by (subst query_loop.simps) simp
        also have "\<dots> = (parts @ [group_of ?p]) @
            map (\<lambda>t. group_of (term_text t)) (merge_terms (drop (i + 1 + 1) terms))"
          using "1.IH" lt True p by simp
        finally show ?thesis using p by (simp add: d)
      next
        case p: False
        have "query_loop terms i parts = query_loop terms (i + 1) (parts @ [group_of (terms ! i)])"
          using lt True p by (subst query_loop.simps) simp
        also have "\<dots> = (parts @ [group_of (terms ! i)]) @
            map (\<lambda>t. group_of (term_text t)) (merge_terms (drop (i + 1) terms))"
          using "1.IH" lt True p by simp
        finally have q: "query_loop terms i parts = (parts @ [group_of (terms ! i)]) @
            map (\<lambda>t. group_of (term_text t)) (merge_terms (drop (i + 1) terms))" .
        have d1: "drop (i + 1) terms = terms ! (i + 1) # drop (i + 1 + 1) terms"
          using True by (metis Cons_nth_drop_Suc Suc_eq_plus1)
        have "merge_terms (drop i terms) =
                merge_terms (terms ! i # terms ! (i + 1) # drop (i + 1 + 1) terms)"
          by (simp only: d)
        also have "\<dots> = Single (terms ! i) # merge_terms (terms ! (i + 1) # drop (i + 1 + 1) terms)"
          using p by (simp only: merge_terms.simps if_False)
        also have "\<dots> = Single (terms ! i) # merge_terms (drop (i + 1) terms)"
          by (simp only: d1)
        finally show ?thesis by (simp add: q)
      qed
    qed
  qed
qed

lemma ascii_space: "ascii '' '' = [32]"
  by (simp add: ascii_def)

lemma empty_not_brand: "[] \<notin> BRAND_HINTS"
  by (simp add: BRAND_HINTS_def ascii_def)

lemma group_of_unfold:
  "group_of w0 =
     (let w = py_replace 34 [] w0
      in ascii ''(title:'' @ [34] @ w @ ascii ''*'' @ [34] @ ascii '' OR tag:'' @ [34] @ w @ [34] @
         (if \<exists>tok \<in> set (py_split w). tok \<in> BRAND_HINTS
          then ascii '' OR vendor:'' @ [34] @ w @ [34] else []) @ ascii '')'')"
  by (simp add: group_of_def Let_def ascii_def)

lemma group_of_single:
  assumes "\<forall>c \<in> set a. \<not> py_isspace c"
  shows "group_of a = spec_group (Single a)"
proof -
  let ?w = "py_replace 34 [] a"
  have "\<forall>c \<in> set ?w. \<not> py_isspace c"
    using assms py_replace_set [of _ 34 "[]" a] by auto
  then have "py_split ?w = (if ?w = [] then [] else [?w])" by (rule py_split_no_space)
  then have "(\<exists>tok \<in> set (py_split ?w). tok \<in> BRAND_HINTS) \<longleftrightarrow> ?w \<in> BRAND_HINTS"
    using empty_not_brand by auto
  then show ?thesis
    by (simp add: group_of_unfold spec_group_def Let_def)
qed

lemma brand_phrase_cases:
  "p \<in> BRAND_PHRASES \<Longrightarrow>
     p = ascii ''ray'' @ 32 # ascii ''ban'' \<or> p = ascii ''new'' @ 32 # ascii ''era'' \<or>
     p = ascii ''g'' @ 32 # ascii ''shock'' \<or> p = ascii ''tommy'' @ 32 # ascii ''hilfiger''"
  by (simp add: BRAND_PHRASES_def ascii_def)

lemma phrase_ray_ban: "group_of (ascii ''ray'' @ 32 # ascii ''ban'') = spec_group (Phrase (ascii ''ray'') (ascii ''ban''))"
  by (simp add: group_of_unfold spec_group_def Let_def ascii_def py_replace_def py_split_def
      py_isspace_def BRAND_HINTS_def)

lemma phrase_new_era: "group_of (ascii ''new'' @ 32 # ascii ''era'') = spec_group (Phrase (ascii ''new'') (ascii ''era''))"
  by (simp add: group_of_unfold spec_group_def Let_def ascii_def py_replace_def py_split_def
      py_isspace_def BRAND_HINTS_def)

lemma phrase_g_shock: "group_of (ascii ''g'' @ 32 # ascii ''shock'') = spec_group (Phrase (ascii ''g'') (ascii ''shock''))"
  by (simp add: group_of_unfold spec_group_def Let_def ascii_def py_replace_def py_split_def
      py_isspace_def BRAND_HINTS_def)

lemma phrase_tommy_hilfiger:
  "group_of (ascii ''tommy'' @ 32 # ascii ''hilfiger'') = spec_group (Phrase (ascii ''tommy'') (ascii ''hilfiger''))"
  by (simp add: group_of_unfold spec_group_def Let_def ascii_def py_replace_def py_split_def
      py_isspace_def BRAND_HINTS_def)

lemma no_space_32: "\<forall>c \<in> set a. \<not> py_isspace c \<Longrightarrow> 32 \<notin> set a"
  using space_is_space by blast

lemma split_at_sep:
  "s \<notin> set a \<Longrightarrow> s \<notin> set x \<Longrightarrow> a @ s # b = x @ s # y \<Longrightarrow> a = x \<and> b = y"
proof (induction a arbitrary: x)
  case Nil
  then show ?case by (cases x) auto
next
  case (Cons c a)
  then show ?case by (cases x) auto
qed

lemma group_of_phrase:
  assumes p: "a @ ascii '' '' @ b \<in> BRAND_PHRASES" and a: "\<forall>c \<in> set a. \<not> py_isspace c"
  shows "group_of (a @ ascii '' '' @ b) = spec_group (Phrase a b)"
proof -
  have na: "32 \<notin> set a" using a by (rule no_space_32)
  have split: "a = x \<and> b = y" if "a @ 32 # b = x @ 32 # y" "32 \<notin> set x" for x y
    using that na split_at_sep [of 32 a x b y] by simp
  from p have "a @ 32 # b \<in> BRAND_PHRASES" by (simp add: ascii_space)
  then consider
      "a @ 32 # b = ascii ''ray'' @ 32 # ascii ''ban''"
    | "a @ 32 # b = ascii ''new'' @ 32 # ascii ''era''"
    | "a @ 32 # b = ascii ''g'' @ 32 # ascii ''shock''"
    | "a @ 32 # b = ascii ''tommy'' @ 32 # ascii ''hilfiger''"
    using brand_phrase_cases by blast
  then show ?thesis
  proof cases
    case 1
    then have "a = ascii ''ray'' \<and> b = ascii ''ban''" by (rule split) (simp add: ascii_def)
    then show ?thesis using phrase_ray_ban by (simp add: ascii_space)
  next
    case 2
    then have "a = ascii ''new'' \<and> b = ascii ''era''" by (rule split) (simp add: ascii_def)
    then show ?thesis using phrase_new_era by (simp add: ascii_space)
  next
    case 3
    then have "a = ascii ''g'' \<and> b = ascii ''shock''" by (rule split) (simp add: ascii_def)
    then show ?thesis using phrase_g_shock by (simp add: ascii_space)
  next
    case 4
    then have "a = ascii ''tommy'' \<and> b = ascii ''hilfiger''" by (rule split) (simp add: ascii_def)
    then show ?thesis using phrase_tommy_hilfiger by (simp add: ascii_space)
  qed
qed

lemma merge_terms_groups:
  "\<forall>w \<in> set terms. \<forall>c \<in> set w. \<not> py_isspace c \<Longrightarrow>
   map (\<lambda>t. group_of (term_text t)) (merge_terms terms) = map spec_group (merge_terms terms)"
proof (induction terms rule: merge_terms.induct)
  case 1
  show ?case by simp
next
  case (2 a)
  then show ?case by (simp add: group_of_single)
next
  case (3 a b rest)
  show ?case
  proof (cases "a @ ascii '' '' @ b \<in> BRAND_PHRASES")
    case True
    with 3 show ?thesis by (simp add: group_of_phrase)
  next
    case False
    with 3 show ?thesis by (simp add: group_of_single)
  qed
qed

lemma build_shopify_query_merge:
  "build_shopify_query terms =
     py_join (ascii '' AND '') (map (\<lambda>t. group_of (term_text t)) (merge_terms terms))"
  using query_loop_merge [of 0 terms "[]"] by (simp add: build_shopify_query_def)

lemma normalize_busco:
  "normalize_terms ucd (ascii ''busco reloj invicta dorado'') = [ascii ''invicta'', ascii ''dorado'']"
  by (simp add: normalize_terms_def strip_accents_def ucd_def ascii_def lower_cp_def decompose_def
      decomposition_table_def canonical_order_def combining_class_def is_Mn_def py_replace_def
      py_split_def py_isspace_def STOPWORDS_ES_def)

lemma query_new_era:
  "build_shopify_query [ascii ''new'', ascii ''era'', ascii ''gorra'', ascii ''negra''] =
     ascii ''(title:'' @ [34] @ ascii ''new era*'' @ [34] @ ascii '' OR tag:'' @ [34] @
     ascii ''new era'' @ [34] @ ascii '' OR vendor:'' @ [34] @ ascii ''new era'' @ [34] @
     ascii '') AND (title:'' @ [34] @ ascii ''gorra*'' @ [34] @ ascii '' OR tag:'' @ [34] @
     ascii ''gorra'' @ [34] @ ascii '') AND (title:'' @ [34] @ ascii ''negra*'' @ [34] @
     ascii '' OR tag:'' @ [34] @ ascii ''negra'' @ [34] @ ascii '')''"
  by (simp add: build_shopify_query_merge BRAND_PHRASES_def group_of_unfold Let_def ascii_def
      py_replace_def py_split_def py_isspace_def BRAND_HINTS_def)

subsection \<open>Latin-1 text under the extract of the Unicode tables\<close>









subsection \<open>The second normalization\<close>









































subsection \<open>Price formatting\<close>

lemma decimal_digit: "n < 10 \<Longrightarrow> decimal n = [48 + n]"
  by (subst decimal.simps) simp

lemma decimal_more: "10 \<le> n \<Longrightarrow> decimal n = decimal (n div 10) @ [48 + n mod 10]"
  by (subst decimal.simps) simp

lemma group3_short: "length ds \<le> 3 \<Longrightarrow> group3 ds = ds"
  by (subst group3.simps) simp

lemma group3_long:
  "3 < length ds \<Longrightarrow>
   group3 ds = group3 (take (length ds - 3) ds) @ ascii '','' @ drop (length ds - 3) ds"
  by (subst group3.simps) simp

lemma format_2f_example: "format_2f (Finite False 2469 (- 1)) = ascii ''1,234.50''"
  by (simp add: format_2f_def hundredths_def round_half_even_def Let_def decimal_digit decimal_more
      group3_short group3_long ascii_def)

lemma format_price_example:
  "format_price L (VFloat (Finite False 2469 (- 1))) = Inr (ascii ''S/ 1.234,50'')"
  by (simp add: format_price_def format_price_try_def py_float_def format_2f_example)
     (simp add: ascii_def py_replace_def)

lemma format_price_total: "\<exists>s. format_price L v = Inr s"
  by (simp add: format_price_def split: sum.split)

lemma format_price_failure:
  "py_float L v = Inl e \<Longrightarrow> format_price L v = Inr (ascii ''S/ '' @ [8212])"
  by (simp add: format_price_def format_price_try_def)

lemma py_float_none: "py_float L VNone = Inl (Exn ''TypeError'' (error_text L ''float'' VNone))"
  by (simp add: py_float_def)

subsection \<open>Collaborator calls\<close>


lemma intent_from_openai_unconfigured:
  "oai W = None \<Longrightarrow> intent_from_openai L W log user_text = (Inr user_text, log)"
  by (simp add: intent_from_openai_def)

lemma intent_from_openai_configured:
  "oai W = Some client \<Longrightarrow>
   intent_from_openai L W log user_text =
     (Inr (case client log (intent_prompt L user_text) of
             LlmRaises x \<Rightarrow> user_text
           | LlmResponse output_text \<Rightarrow>
               (let intent = str_lower L (py_strip (case output_text of Some s \<Rightarrow> s | None \<Rightarrow> []))
                in if intent \<noteq> [] then intent else user_text)),
      log @ [LlmCall (intent_prompt L user_text)])"
  by (simp add: intent_from_openai_def intent_try_def Let_def split: llm_result.split)

lemma intent_from_openai_returns: "\<exists>s. fst (intent_from_openai L W log user_text) = Inr s"
  by (cases "oai W") (simp_all add: intent_from_openai_unconfigured intent_from_openai_configured)



lemma shopify_query_configured:
  assumes "SHOPIFY_GQL W = Some gql" "SHOPIFY_TOKEN W = Some token" "token \<noteq> []"
  shows "shopify_query L W log text =
     (case requests_post W log
             \<lparr> req_url = gql, req_token = token, req_q = build_shopify_query (query_terms L text) \<rparr> of
        PostRaises x \<Rightarrow> Inl x
      | Responded resp \<Rightarrow>
          (case resp_status_error resp of
             Some x \<Rightarrow> Inl x
           | None \<Rightarrow> (case resp_json resp of Inl x \<Rightarrow> Inl x | Inr data \<Rightarrow> products_of L data)),
      log @ [CatalogCall \<lparr> req_url = gql, req_token = token,
                           req_q = build_shopify_query (query_terms L text) \<rparr>])"
  using assms by (simp add: shopify_query_def Let_def)





subsection \<open>Concrete runs\<close>

lemma strip_busco: "py_strip (ascii '' busco reloj invicta '') = ascii ''busco reloj invicta''"
  by (simp add: py_strip_def ascii_def py_isspace_def)

lemma gql_example:
  "SHOPIFY_GQL world_no_hits = Some (ascii ''https://suntimestores.myshopify.com/admin/api/2024-10/graphql.json'')"
  "SHOPIFY_GQL world_down = Some (ascii ''https://suntimestores.myshopify.com/admin/api/2024-10/graphql.json'')"
  "SHOPIFY_GQL world_malformed = Some (ascii ''https://suntimestores.myshopify.com/admin/api/2024-10/graphql.json'')"
  by (simp_all add: SHOPIFY_GQL_def world_no_hits_def world_down_def world_malformed_def API_VERSION_def ascii_def)

lemma products_of_answer:
  "products_of L (VDict [(ascii ''data'', VDict [(ascii ''products'', VDict [(ascii ''edges'', edges)])])]) =
     Inr (py_or edges (VList []))"
  by (simp add: products_of_def py_in_def py_get_def ascii_def)



lemma shopify_query_malformed:
  "shopify_query L world_malformed log t =
     (Inr (VList [VDict []]),
      log @ [CatalogCall \<lparr> req_url = ascii ''https://suntimestores.myshopify.com/admin/api/2024-10/graphql.json'',
                           req_token = ascii ''shpat_token'',
                           req_q = build_shopify_query (query_terms L t) \<rparr>])"
proof -
  have t: "SHOPIFY_TOKEN world_malformed = Some (ascii ''shpat_token'')" "ascii ''shpat_token'' \<noteq> []"
    by (simp_all add: world_malformed_def ascii_def)
  have p: "requests_post world_malformed = (\<lambda>log req. catalog_answer (VList [VDict []]))"
    by (simp add: world_malformed_def)
  show ?thesis
    by (simp add: shopify_query_configured [OF gql_example(3) t] p catalog_answer_def
        products_of_answer py_or_def)
qed

lemma intent_no_llm:
  "intent_from_openai L world_no_hits log t = (Inr t, log)"
  "intent_from_openai L world_down log t = (Inr t, log)"
  "intent_from_openai L world_malformed log t = (Inr t, log)"
  by (simp_all add: intent_from_openai_unconfigured world_no_hits_def world_down_def world_malformed_def)

subsection \<open>Exceptions that leave the endpoint\<close>

text \<open>
  Where an exception can leave \<open>chat_intent\<close>: only in \<open>format_products\<close>, on a non-empty
  result. An item that is an object with a \<open>node\<close> object always gives a line.
\<close>

lemma chat_intent_escape:
  assumes "fst (chat_intent L W message) = Inl x"
  shows "\<exists>products. truthy products \<and> format_products L products = Inl x"
proof -
  obtain s log1 where i: "intent_from_openai L W [] (py_strip message) = (Inr s, log1)"
    using intent_from_openai_returns [of L W "[]" "py_strip message"]
    by (cases "intent_from_openai L W [] (py_strip message)") auto
  show ?thesis
    using assms
    by (auto simp: chat_intent_def Let_def i split: if_splits prod.splits sum.splits)
qed

lemma product_line_well_formed:
  assumes "map_of item (ascii ''node'') = Some (VDict nd)"
  shows "\<exists>s. product_line L (VDict item) = Inr s"
proof -
  obtain p where "format_price L (first_variant_price L (VDict nd)) = Inr p"
    using format_price_total by blast
  then show ?thesis
    using assms by (simp add: product_line_def py_item_def py_get_def Let_def)
qed

section \<open>The claims\<close>

subsection \<open>Claims about the tokenizer\<close>

text \<open>
  C2. For every input text, and whatever the Unicode tables of the runtime are,
  \<open>normalize_terms\<close> returns at most 5 tokens; every token is longer than 2, is not in the
  stopword set, contains no character of category Mn (it is diacritic-free) and no white
  space, and consists of characters of the decomposed lower-cased text (it is lower-cased);
  the tokens are the first five surviving words of the cleaned text, in their order of
  appearance.
\<close>

theorem normalize_terms_tokens:
  "length (normalize_terms U text) \<le> 5 \<and>
   (\<forall>w \<in> set (normalize_terms U text).
      2 < length w \<and> w \<notin> STOPWORDS_ES \<and>
      (\<forall>c \<in> set w. \<not> category_Mn U c \<and> \<not> py_isspace c \<and>
                     c \<in> set (normalize_NFD U (str_lower U text)))) \<and>
   normalize_terms U text =
     take 5 (filter (\<lambda>w. w \<notin> STOPWORDS_ES \<and> 2 < length w) (py_split (cleaned U text)))"
proof (intro conjI ballI)
  show "length (normalize_terms U text) \<le> 5" by (simp add: normalize_terms_filter)
next
  fix w assume w: "w \<in> set (normalize_terms U text)"
  then have f: "w \<in> set (filter (\<lambda>w. w \<notin> STOPWORDS_ES \<and> 2 < length w) (py_split (cleaned U text)))"
    unfolding normalize_terms_filter by (rule in_set_takeD)
  then show "2 < length w" "w \<notin> STOPWORDS_ES" by simp_all
  fix c assume c: "c \<in> set w"
  from f have "w \<in> set (py_split (cleaned U text))" by simp
  with c have "\<not> py_isspace c" "c \<in> set (cleaned U text)" using py_split_props by blast+
  then show "\<not> category_Mn U c" "\<not> py_isspace c" "c \<in> set (normalize_NFD U (str_lower U text))"
    using cleaned_chars by blast+
next
  show "normalize_terms U text =
     take 5 (filter (\<lambda>w. w \<notin> STOPWORDS_ES \<and> 2 < length w) (py_split (cleaned U text)))"
    by (rule normalize_terms_filter)
qed

theorem normalize_terms_tokens_witness:
  "normalize_terms ucd (ascii ''busco reloj invicta dorado'') = [ascii ''invicta'', ascii ''dorado''] \<and>
   length (normalize_terms ucd (ascii ''busco reloj invicta dorado'')) \<le> 5 \<and>
   2 < length (ascii ''invicta'') \<and> ascii ''invicta'' \<notin> STOPWORDS_ES \<and>
   \<not> category_Mn ucd 105 \<and> \<not> py_isspace 105"
proof -
  let ?r = "normalize_terms ucd (ascii ''busco reloj invicta dorado'')"
  have e: "?r = [ascii ''invicta'', ascii ''dorado'']" by (rule normalize_busco)
  have w: "ascii ''invicta'' \<in> set ?r" by (simp add: e)
  have c: "105 \<in> set (ascii ''invicta'')" by (simp add: ascii_def)
  have "\<forall>w \<in> set ?r. 2 < length w \<and> w \<notin> STOPWORDS_ES \<and>
          (\<forall>c \<in> set w. \<not> category_Mn ucd c \<and> \<not> py_isspace c)"
    using normalize_terms_tokens [of ucd "ascii ''busco reloj invicta dorado''"] by blast
  with w c have "2 < length (ascii ''invicta'') \<and> ascii ''invicta'' \<notin> STOPWORDS_ES \<and>
      \<not> category_Mn ucd 105 \<and> \<not> py_isspace 105"
    by blast
  moreover have "length ?r \<le> 5"
    using normalize_terms_tokens [of ucd "ascii ''busco reloj invicta dorado''"] by blast
  ultimately show ?thesis using e by blast
qed

text \<open>
  C8. \<open>normalize_terms("busco reloj invicta dorado")\<close> is exactly \<open>["invicta", "dorado"]\<close>,
  \<open>busco\<close> and \<open>reloj\<close> being stopwords, and the query built from these tokens is
  \<open>(title:"invicta*" OR tag:"invicta" OR vendor:"invicta") AND (title:"dorado*" OR tag:"dorado")\<close>:
  it has a vendor clause for \<open>invicta\<close>.
\<close>

theorem busco_reloj_invicta_dorado:
  "normalize_terms ucd (ascii ''busco reloj invicta dorado'') = [ascii ''invicta'', ascii ''dorado''] \<and>
   ascii ''busco'' \<in> STOPWORDS_ES \<and> ascii ''reloj'' \<in> STOPWORDS_ES \<and>
   build_shopify_query [ascii ''invicta'', ascii ''dorado''] =
     ascii ''(title:'' @ [34] @ ascii ''invicta*'' @ [34] @ ascii '' OR tag:'' @ [34] @
     ascii ''invicta'' @ [34] @ ascii '' OR vendor:'' @ [34] @ ascii ''invicta'' @ [34] @
     ascii '') AND (title:'' @ [34] @ ascii ''dorado*'' @ [34] @ ascii '' OR tag:'' @ [34] @
     ascii ''dorado'' @ [34] @ ascii '')''"
proof (intro conjI)
  show "normalize_terms ucd (ascii ''busco reloj invicta dorado'') = [ascii ''invicta'', ascii ''dorado'']"
    by (rule normalize_busco)
  show "ascii ''busco'' \<in> STOPWORDS_ES" "ascii ''reloj'' \<in> STOPWORDS_ES"
    by (simp_all add: STOPWORDS_ES_def)
  show "build_shopify_query [ascii ''invicta'', ascii ''dorado''] =
     ascii ''(title:'' @ [34] @ ascii ''invicta*'' @ [34] @ ascii '' OR tag:'' @ [34] @
     ascii ''invicta'' @ [34] @ ascii '' OR vendor:'' @ [34] @ ascii ''invicta'' @ [34] @
     ascii '') AND (title:'' @ [34] @ ascii ''dorado*'' @ [34] @ ascii '' OR tag:'' @ [34] @
     ascii ''dorado'' @ [34] @ ascii '')''"
    by (simp add: build_shopify_query_merge BRAND_PHRASES_def group_of_unfold Let_def ascii_def
        py_replace_def py_split_def py_isspace_def BRAND_HINTS_def)
qed

subsection \<open>Claims about the query synthesizer\<close>

text \<open>
  C3. For a list of tokens (single words: no token contains white space),
  \<open>build_shopify_query\<close> returns the \<open>AND\<close>-join, in token order, of one group per term of the
  greedy brand-phrase merge. The group of a term \<open>w\<close>, quotes stripped, is
  \<open>(title:"w*" OR tag:"w")\<close>, extended with \<open>OR vendor:"w"\<close> exactly when \<open>w\<close>, or one of the two
  halves of a merged phrase, is a brand hint.
\<close>

theorem build_shopify_query_groups:
  assumes "\<forall>w \<in> set terms. \<forall>c \<in> set w. \<not> py_isspace c"
  shows "build_shopify_query terms = py_join (ascii '' AND '') (map spec_group (merge_terms terms))"
  by (simp only: build_shopify_query_merge merge_terms_groups [OF assms])

theorem build_shopify_query_groups_witness:
  "build_shopify_query [ascii ''tommy'', ascii ''hilfiger'', ascii ''polo''] =
     py_join (ascii '' AND '')
       [spec_group (Phrase (ascii ''tommy'') (ascii ''hilfiger'')), spec_group (Single (ascii ''polo''))]"
proof -
  have h: "\<forall>w \<in> set [ascii ''tommy'', ascii ''hilfiger'', ascii ''polo'']. \<forall>c \<in> set w. \<not> py_isspace c"
    by (simp add: ascii_def py_isspace_def)
  have m: "merge_terms [ascii ''tommy'', ascii ''hilfiger'', ascii ''polo''] =
             [Phrase (ascii ''tommy'') (ascii ''hilfiger''), Single (ascii ''polo'')]"
    by (simp add: BRAND_PHRASES_def ascii_def)
  show ?thesis using build_shopify_query_groups [OF h] by (simp only: m list.map)
qed

text \<open>
  C4. The loop looks one token ahead: when the current token, a blank and the next token
  make a recognised brand phrase, one group is emitted for the pair and the cursor moves by
  two; otherwise one group is emitted for the current token and the cursor moves by one.
  The groups are therefore those of the greedy merge. On \<open>["new", "era", "gorra", "negra"]\<close>
  the merge gives three terms and the query is
  \<open>(title:"new era*" OR tag:"new era" OR vendor:"new era") AND (title:"gorra*" OR tag:"gorra")
  AND (title:"negra*" OR tag:"negra")\<close>.
\<close>

theorem build_shopify_query_lookahead:
  "(i + 1 < length terms \<and> terms ! i @ ascii '' '' @ terms ! (i + 1) \<in> BRAND_PHRASES \<longrightarrow>
      query_loop terms i parts =
        query_loop terms (i + 2) (parts @ [group_of (terms ! i @ ascii '' '' @ terms ! (i + 1))])) \<and>
   (i < length terms \<and>
      \<not> (i + 1 < length terms \<and> terms ! i @ ascii '' '' @ terms ! (i + 1) \<in> BRAND_PHRASES) \<longrightarrow>
      query_loop terms i parts = query_loop terms (i + 1) (parts @ [group_of (terms ! i)])) \<and>
   build_shopify_query terms =
     py_join (ascii '' AND '') (map (\<lambda>t. group_of (term_text t)) (merge_terms terms)) \<and>
   merge_terms [ascii ''new'', ascii ''era'', ascii ''gorra'', ascii ''negra''] =
     [Phrase (ascii ''new'') (ascii ''era''), Single (ascii ''gorra''), Single (ascii ''negra'')] \<and>
   build_shopify_query [ascii ''new'', ascii ''era'', ascii ''gorra'', ascii ''negra''] =
     ascii ''(title:'' @ [34] @ ascii ''new era*'' @ [34] @ ascii '' OR tag:'' @ [34] @
     ascii ''new era'' @ [34] @ ascii '' OR vendor:'' @ [34] @ ascii ''new era'' @ [34] @
     ascii '') AND (title:'' @ [34] @ ascii ''gorra*'' @ [34] @ ascii '' OR tag:'' @ [34] @
     ascii ''gorra'' @ [34] @ ascii '') AND (title:'' @ [34] @ ascii ''negra*'' @ [34] @
     ascii '' OR tag:'' @ [34] @ ascii ''negra'' @ [34] @ ascii '')''"
proof (intro conjI impI)
  assume "i + 1 < length terms \<and> terms ! i @ ascii '' '' @ terms ! (i + 1) \<in> BRAND_PHRASES"
  then show "query_loop terms i parts =
        query_loop terms (i + 2) (parts @ [group_of (terms ! i @ ascii '' '' @ terms ! (i + 1))])"
    by (subst query_loop.simps) simp
next
  assume "i < length terms \<and>
      \<not> (i + 1 < length terms \<and> terms ! i @ ascii '' '' @ terms ! (i + 1) \<in> BRAND_PHRASES)"
  then show "query_loop terms i parts = query_loop terms (i + 1) (parts @ [group_of (terms ! i)])"
    by (subst query_loop.simps) (auto simp: Let_def)
next
  show "build_shopify_query terms =
     py_join (ascii '' AND '') (map (\<lambda>t. group_of (term_text t)) (merge_terms terms))"
    by (rule build_shopify_query_merge)
next
  show "merge_terms [ascii ''new'', ascii ''era'', ascii ''gorra'', ascii ''negra''] =
     [Phrase (ascii ''new'') (ascii ''era''), Single (ascii ''gorra''), Single (ascii ''negra'')]"
    by (simp add: BRAND_PHRASES_def ascii_def)
next
  show "build_shopify_query [ascii ''new'', ascii ''era'', ascii ''gorra'', ascii ''negra''] =
     ascii ''(title:'' @ [34] @ ascii ''new era*'' @ [34] @ ascii '' OR tag:'' @ [34] @
     ascii ''new era'' @ [34] @ ascii '' OR vendor:'' @ [34] @ ascii ''new era'' @ [34] @
     ascii '') AND (title:'' @ [34] @ ascii ''gorra*'' @ [34] @ ascii '' OR tag:'' @ [34] @
     ascii ''gorra'' @ [34] @ ascii '') AND (title:'' @ [34] @ ascii ''negra*'' @ [34] @
     ascii '' OR tag:'' @ [34] @ ascii ''negra'' @ [34] @ ascii '')''"
    by (rule query_new_era)
qed

theorem build_shopify_query_lookahead_witness:
  "query_loop [ascii ''new'', ascii ''era'', ascii ''gorra''] 0 [] =
     query_loop [ascii ''new'', ascii ''era'', ascii ''gorra''] 2 [group_of (ascii ''new era'')] \<and>
   query_loop [ascii ''new'', ascii ''era'', ascii ''gorra''] 2 [group_of (ascii ''new era'')] =
     query_loop [ascii ''new'', ascii ''era'', ascii ''gorra''] 3
       [group_of (ascii ''new era''), group_of (ascii ''gorra'')]"
proof -
  let ?T = "[ascii ''new'', ascii ''era'', ascii ''gorra'']"
  have e: "ascii ''new'' @ ascii '' '' @ ascii ''era'' = ascii ''new era''"
    by (simp add: ascii_def)
  have p: "ascii ''new era'' \<in> BRAND_PHRASES"
    by (simp add: BRAND_PHRASES_def)
  have a1: "0 + 1 < length ?T \<and> ?T ! 0 @ ascii '' '' @ ?T ! (0 + 1) \<in> BRAND_PHRASES"
    using p by (simp add: e)
  have a2: "2 < length ?T \<and>
      \<not> (2 + 1 < length ?T \<and> ?T ! 2 @ ascii '' '' @ ?T ! (2 + 1) \<in> BRAND_PHRASES)"
    by simp
  have r1: "query_loop ?T 0 [] =
      query_loop ?T (0 + 2) ([] @ [group_of (?T ! 0 @ ascii '' '' @ ?T ! (0 + 1))])"
    using build_shopify_query_lookahead [of 0 ?T "[]"] a1 by blast
  have r2: "query_loop ?T 2 [group_of (ascii ''new era'')] =
      query_loop ?T (2 + 1) ([group_of (ascii ''new era'')] @ [group_of (?T ! 2)])"
    using build_shopify_query_lookahead [of 2 ?T "[group_of (ascii ''new era'')]"] a2 by blast
  show ?thesis using r1 r2 by (simp add: e eval_nat_numeral)
qed

subsection \<open>Claims about the orchestrator\<close>



text \<open>
  C5. \<open>intent_from_openai\<close> returns a string for every input and every behaviour of the
  language model. Without a client it returns the text unchanged and calls nothing. With a
  client it calls it exactly once, with the prompt built from the text, and returns the
  trimmed lower-cased output, or the text unchanged when the output is empty or absent or
  the call raises.
\<close>

theorem intent_from_openai_fallback:
  "(\<exists>s. fst (intent_from_openai L W log user_text) = Inr s) \<and>
   (oai W = None \<longrightarrow> intent_from_openai L W log user_text = (Inr user_text, log)) \<and>
   (\<forall>client. oai W = Some client \<longrightarrow>
      snd (intent_from_openai L W log user_text) = log @ [LlmCall (intent_prompt L user_text)] \<and>
      fst (intent_from_openai L W log user_text) =
        Inr (case client log (intent_prompt L user_text) of
               LlmRaises x \<Rightarrow> user_text
             | LlmResponse output_text \<Rightarrow>
                 (let intent = str_lower L (py_strip (case output_text of Some s \<Rightarrow> s | None \<Rightarrow> []))
                  in if intent \<noteq> [] then intent else user_text)))"
  by (simp add: intent_from_openai_returns intent_from_openai_unconfigured
      intent_from_openai_configured)

theorem intent_from_openai_fallback_witness:
  "\<forall>r s fi fs et.
     intent_from_openai (ucd_runtime r s fi fs et) world_no_hits [] (ascii ''busco reloj invicta'') =
       (Inr (ascii ''busco reloj invicta''), []) \<and>
     intent_from_openai (ucd_runtime r s fi fs et) world_llm [] (ascii ''busco reloj invicta'') =
       (Inr (ascii ''invicta dorado''),
        [LlmCall (intent_prompt (ucd_runtime r s fi fs et) (ascii ''busco reloj invicta''))])"
proof (intro allI)
  fix r s fi fs et
  let ?L = "ucd_runtime r s fi fs et"
  let ?t = "ascii ''busco reloj invicta''"
  have n: "oai world_no_hits = None" by (simp add: world_no_hits_def)
  have c: "oai world_llm = Some (\<lambda>log prompt. LlmResponse (Some (ascii '' Invicta Dorado '')))"
    by (simp add: world_llm_def)
  have l: "str_lower ?L (py_strip (ascii '' Invicta Dorado '')) = ascii ''invicta dorado''"
    by (simp add: ucd_runtime_def ucd_def py_strip_def ascii_def py_isspace_def lower_cp_def)
  have e: "ascii ''invicta dorado'' \<noteq> []" by (simp add: ascii_def)
  have a: "intent_from_openai ?L world_no_hits [] ?t = (Inr ?t, [])"
    using intent_from_openai_fallback [of ?L world_no_hits "[]" ?t] n by blast
  have "snd (intent_from_openai ?L world_llm [] ?t) = [] @ [LlmCall (intent_prompt ?L ?t)] \<and>
        fst (intent_from_openai ?L world_llm [] ?t) = Inr (ascii ''invicta dorado'')"
    using intent_from_openai_fallback [of ?L world_llm "[]" ?t] c l e by (simp add: Let_def)
  then have b: "intent_from_openai ?L world_llm [] ?t =
      (Inr (ascii ''invicta dorado''), [LlmCall (intent_prompt ?L ?t)])"
    by (simp add: prod_eq_iff)
  show "intent_from_openai ?L world_no_hits [] ?t = (Inr ?t, []) \<and>
        intent_from_openai ?L world_llm [] ?t =
          (Inr (ascii ''invicta dorado''), [LlmCall (intent_prompt ?L ?t)])"
    using a b by simp
qed

text \<open>
  C6. The claim is that no exception leaves \<open>chat_intent\<close>, also for malformed catalog
  items. The run below refutes it for the code: the catalog answers with one item that has
  no \<open>node\<close>; \<open>format_products\<close> reads \<open>e["node"]\<close> outside any \<open>try\<close>, and \<open>chat_intent\<close>
  calls \<open>format_products\<close> outside any \<open>try\<close>, so the \<open>KeyError\<close> leaves the endpoint.
\<close>

theorem chat_intent_malformed_item_raises:
  "fst (chat_intent L world_malformed (ascii '' busco reloj invicta '')) =
     Inl (Exn ''KeyError'' (py_repr L (ascii ''node'')))"
proof -
  have f: "format_products L (VList [VDict []]) = Inl (Exn ''KeyError'' (py_repr L (ascii ''node'')))"
    by (simp add: format_products_def py_first3_def product_line_def py_item_def)
  have s: "py_strip (ascii '' busco reloj invicta '') \<noteq> []"
    unfolding strip_busco by (simp add: ascii_def)
  show ?thesis
    using s by (simp add: chat_intent_def Let_def intent_no_llm shopify_query_malformed f)
qed

subsection \<open>Claims about the price\<close>

text \<open>
  C7. \<open>format_price(1234.5)\<close> is \<open>"S/ 1.234,50"\<close>: the currency prefix, a period between
  the thousands and a comma before the decimals. \<open>format_price(None)\<close>, and \<open>format_price\<close> of
  any value whose conversion to \<open>float\<close> raises, is the placeholder \<open>"S/ \<emdash>"\<close>, and
  \<open>format_price\<close> returns a string for every value.
\<close>

theorem format_price_cases:
  "format_price L (VFloat (Finite False 2469 (- 1))) = Inr (ascii ''S/ 1.234,50'') \<and>
   format_price L VNone = Inr (ascii ''S/ '' @ [8212]) \<and>
   (\<forall>v e. py_float L v = Inl e \<longrightarrow> format_price L v = Inr (ascii ''S/ '' @ [8212])) \<and>
   (\<forall>v. \<exists>s. format_price L v = Inr s)"
  using format_price_failure [OF py_float_none, of L]
  by (simp add: format_price_example format_price_failure format_price_total)

theorem format_price_cases_witness:
  "\<forall>L :: pylib.
     py_float L (VList []) = Inl (Exn ''TypeError'' (error_text L ''float'' (VList []))) \<and>
     format_price L (VList []) = Inr (ascii ''S/ '' @ [8212])"
proof
  fix L :: pylib
  have p: "py_float L (VList []) = Inl (Exn ''TypeError'' (error_text L ''float'' (VList [])))"
    by (simp add: py_float_def)
  show "py_float L (VList []) = Inl (Exn ''TypeError'' (error_text L ''float'' (VList []))) \<and>
        format_price L (VList []) = Inr (ascii ''S/ '' @ [8212])"
    using format_price_cases [of L] p by blast
qed

subsection \<open>Claims about empty input and the second normalization\<close>

text \<open>
  C9. \<open>normalize_terms("")\<close> is the empty list and \<open>build_shopify_query([])\<close> is the empty
  string. When the shop is configured and the text gives no terms, \<open>shopify_query\<close> sends
  the request with the empty query string, logs that one request, and returns what the
  answer of the catalog contains: it raises nothing of its own.
\<close>

theorem empty_query_is_sent:
  "normalize_terms ucd [] = [] \<and> build_shopify_query [] = [] \<and>
   (\<forall>gql token data.
      SHOPIFY_GQL W = Some gql \<and> SHOPIFY_TOKEN W = Some token \<and> token \<noteq> [] \<and>
      query_terms L t = [] \<and>
      requests_post W log \<lparr> req_url = gql, req_token = token, req_q = [] \<rparr> =
        Responded \<lparr> resp_status_error = None, resp_json = Inr data \<rparr> \<longrightarrow>
      shopify_query L W log t =
        (products_of L data, log @ [CatalogCall \<lparr> req_url = gql, req_token = token, req_q = [] \<rparr>]))"
proof (intro conjI allI impI)
  show "normalize_terms ucd [] = []"
    by (simp add: normalize_terms_def strip_accents_def ucd_def canonical_order_def py_replace_def
        py_split_def)
  show "build_shopify_query [] = []" by (simp add: build_shopify_query_def)
  fix gql token data
  assume a: "SHOPIFY_GQL W = Some gql \<and> SHOPIFY_TOKEN W = Some token \<and> token \<noteq> [] \<and>
      query_terms L t = [] \<and>
      requests_post W log \<lparr> req_url = gql, req_token = token, req_q = [] \<rparr> =
        Responded \<lparr> resp_status_error = None, resp_json = Inr data \<rparr>"
  then have c: "SHOPIFY_GQL W = Some gql" "SHOPIFY_TOKEN W = Some token" "token \<noteq> []" by simp_all
  from a show "shopify_query L W log t =
        (products_of L data, log @ [CatalogCall \<lparr> req_url = gql, req_token = token, req_q = [] \<rparr>])"
    by (simp add: shopify_query_configured [OF c] build_shopify_query_def)
qed

theorem empty_query_is_sent_witness:
  "\<forall>r s fi fs et.
     query_terms (ucd_runtime r s fi fs et) [] = [] \<and>
     shopify_query (ucd_runtime r s fi fs et) world_no_hits [] [] =
       (Inr (VList []),
        [CatalogCall \<lparr> req_url = ascii ''https://suntimestores.myshopify.com/admin/api/2024-10/graphql.json'',
                       req_token = ascii ''shpat_token'', req_q = [] \<rparr>])"
proof (intro allI)
  fix r s fi fs et
  let ?L = "ucd_runtime r s fi fs et"
  let ?gql = "ascii ''https://suntimestores.myshopify.com/admin/api/2024-10/graphql.json''"
  let ?data = "VDict [(ascii ''data'', VDict [(ascii ''products'', VDict [(ascii ''edges'', VList [])])])]"
  have q: "query_terms ?L [] = []"
    by (simp add: query_terms_def normalize_terms_def strip_accents_def ucd_runtime_def ucd_def
        canonical_order_def py_replace_def py_split_def)
  have t: "SHOPIFY_TOKEN world_no_hits = Some (ascii ''shpat_token'')" "ascii ''shpat_token'' \<noteq> []"
    by (simp_all add: world_no_hits_def ascii_def)
  have p: "requests_post world_no_hits [] \<lparr> req_url = ?gql, req_token = ascii ''shpat_token'', req_q = [] \<rparr> =
             Responded \<lparr> resp_status_error = None, resp_json = Inr ?data \<rparr>"
    by (simp add: world_no_hits_def catalog_answer_def)
  have "shopify_query ?L world_no_hits [] [] =
          (products_of ?L ?data,
           [] @ [CatalogCall \<lparr> req_url = ?gql, req_token = ascii ''shpat_token'', req_q = [] \<rparr>])"
    using empty_query_is_sent [of world_no_hits ?L "[]" "[]"] gql_example(1) t q p by blast
  then show "query_terms ?L [] = [] \<and>
     shopify_query ?L world_no_hits [] [] =
       (Inr (VList []),
        [CatalogCall \<lparr> req_url = ?gql, req_token = ascii ''shpat_token'', req_q = [] \<rparr>])"
    using q by (simp add: products_of_answer py_or_def)
qed




end
